theory Spec2Isabelle
  imports Complex_Main "HOL-Library.AList" "HOL-Library.Monad_Syntax"
begin

section \<open>JSON values and the Python operations the code applies to them\<close>

text \<open>
  The services work on the values that \<^verbatim>\<open>response.json()\<close> returns: Python's \<^verbatim>\<open>None\<close>,
  booleans, numbers, strings, lists and dicts.  A dict keeps its insertion order, so it is
  an association list; a key is looked up with \<open>map_of\<close> and stored with \<open>AList.update\<close>
  (in place when the key is there, at the end otherwise, as Python does).  The numbers are
  only ever passed through, never computed with.  A float is finite (\<open>JFloat\<close>), or one of
  the three values that the parser also produces: for \<^verbatim>\<open>Infinity\<close> and a number beyond the
  range of a double, for \<^verbatim>\<open>-Infinity\<close>, and for \<^verbatim>\<open>NaN\<close>.
\<close>

datatype nonfinite = PosInf | NegInf | NaN

datatype json =
    JNull
  | JBool bool
  | JInt int
  | JFloat rat
  | JNonFinite nonfinite
  | JStr string
  | JArr "json list"
  | JObj "(string \<times> json) list"

text \<open>\<^verbatim>\<open>x[key]\<close> with a string key: only a dict that has the key answers; a missing key
  (KeyError) and every other receiver (TypeError) raise, which is \<open>None\<close> here.\<close>

fun py_getitem :: "json \<Rightarrow> string \<Rightarrow> json option" where
  "py_getitem (JObj kvs) key = map_of kvs key"
| "py_getitem _ key = None"

text \<open>\<^verbatim>\<open>x.get(key, default)\<close>: a dict answers with the value or the default; any other
  receiver has no \<^verbatim>\<open>get\<close> (AttributeError).\<close>

fun py_get :: "json \<Rightarrow> string \<Rightarrow> json \<Rightarrow> json option" where
  "py_get (JObj kvs) key dflt = Some (case map_of kvs key of None \<Rightarrow> dflt | Some v \<Rightarrow> v)"
| "py_get _ key dflt = None"

text \<open>Truth value of a JSON value, as \<^verbatim>\<open>if not x\<close> tests it.\<close>

fun py_truthy :: "json \<Rightarrow> bool" where
  "py_truthy JNull = False"
| "py_truthy (JBool b) = b"
| "py_truthy (JInt n) = (n \<noteq> 0)"
| "py_truthy (JFloat r) = (r \<noteq> 0)"
| "py_truthy (JNonFinite x) = True"
| "py_truthy (JStr s) = (s \<noteq> [])"
| "py_truthy (JArr xs) = (xs \<noteq> [])"
| "py_truthy (JObj kvs) = (kvs \<noteq> [])"

text \<open>\<^verbatim>\<open>x[0]\<close>: the first element of a list, the first character of a string; IndexError on
  an empty one, KeyError on a dict (its keys are strings), TypeError on the rest.\<close>

fun py_first :: "json \<Rightarrow> json option" where
  "py_first (JArr (x # xs)) = Some x"
| "py_first (JStr (c # cs)) = Some (JStr [c])"
| "py_first _ = None"

text \<open>\<^verbatim>\<open>for item in x\<close>: a list yields its elements, a dict its keys, a string its
  characters; nothing else is iterable (TypeError).\<close>

fun py_iter :: "json \<Rightarrow> json list option" where
  "py_iter (JArr xs) = Some xs"
| "py_iter (JObj kvs) = Some (map (\<lambda>kv. JStr (fst kv)) kvs)"
| "py_iter (JStr s) = Some (map (\<lambda>c. JStr [c]) s)"
| "py_iter _ = None"

section \<open>Outbound HTTP calls\<close>

text \<open>
  One outbound GET is a \<open>request\<close>; \<open>timeout = None\<close> is the client's default.  What comes
  back is a \<open>reply\<close>: the parsed body, or the exception raised by \<^verbatim>\<open>client.get\<close>
  (timeout, transport failure), by \<^verbatim>\<open>raise_for_status\<close> (a non-success status) or by
  \<^verbatim>\<open>response.json()\<close> (a body that is not JSON).  Nothing observable happens between
  these three steps, so they are one step here.
\<close>

record request =
  url :: string
  params :: "(string \<times> json) list"
  headers :: "(string \<times> string) list"
  timeout :: "rat option"

datatype failure =
    TimeoutException
  | TransportError
  | HTTPStatusError nat
  | JSONDecodeError

datatype reply = Raises failure | Returns json

datatype http_exception = HTTPException nat string

text \<open>An exception whose text the handlers interpolate into a response detail.\<close>

datatype raised =
    Remote failure
  | Http http_exception
  | Local json

text \<open>
  What the code takes from outside: the providers behind the HTTP client, the API key of
  the environment, the host's \<^verbatim>\<open>datetime.fromtimestamp(x).strftime('%Y-%m-%d')\<close> (\<open>None\<close>
  when it raises), the validation of the two pydantic models (\<open>None\<close> when it raises, the
  validated model as its dict otherwise) and \<^verbatim>\<open>str(e)\<close> of an exception.
\<close>

record platform =
  http_get :: "request \<Rightarrow> reply"
  api_key :: string
  local_date :: "json \<Rightarrow> string option"
  LocationData :: "json \<Rightarrow> json option"
  WeatherData :: "json \<Rightarrow> json option"
  str_of :: "raised \<Rightarrow> string"

section \<open>app/services/weather.py\<close>

definition base_url :: string where
  "base_url = ''http://api.openweathermap.org/data/2.5''"

definition geo_url :: string where
  "geo_url = ''http://api.openweathermap.org/geo/1.0''"

text \<open>The four fields both services copy out of the first geocoding match.\<close>

definition location_fields :: "json \<Rightarrow> json option" where
  "location_fields location = do {
     lat \<leftarrow> py_getitem location ''lat'';
     lon \<leftarrow> py_getitem location ''lon'';
     name \<leftarrow> py_getitem location ''name'';
     country \<leftarrow> py_getitem location ''country'';
     Some (JObj [(''lat'', lat), (''lon'', lon), (''name'', name), (''country'', country)])
   }"

text \<open>\<^verbatim>\<open>WeatherService.get_location\<close>.  Every function below returns its result together
  with the outbound requests it issued, in order.\<close>

definition get_location_request :: "platform \<Rightarrow> string \<Rightarrow> request" where
  "get_location_request P city =
     \<lparr>url = geo_url @ ''/direct'',
      params = [(''q'', JStr city), (''limit'', JInt 5), (''appid'', JStr (api_key P))],
      headers = [],
      timeout = Some 30\<rparr>"

definition WeatherService_get_location :: "platform \<Rightarrow> string \<Rightarrow> json option \<times> request list" where
  "WeatherService_get_location P city =
     (let req = get_location_request P city in
      (case http_get P req of
         Raises e \<Rightarrow> None
       | Returns locations \<Rightarrow>
           if \<not> py_truthy locations then None
           else (case py_first locations of
                   None \<Rightarrow> None
                 | Some location \<Rightarrow> location_fields location),
       [req]))"

text \<open>\<^verbatim>\<open>WeatherService.get_weather\<close>: geocode with limit 1, then the current weather at the
  coordinates of the first match, then the location stored under \<^verbatim>\<open>"location"\<close>.\<close>

definition get_weather_geo_request :: "platform \<Rightarrow> string \<Rightarrow> request" where
  "get_weather_geo_request P city =
     \<lparr>url = geo_url @ ''/direct'',
      params = [(''q'', JStr city), (''limit'', JInt 1), (''appid'', JStr (api_key P))],
      headers = [],
      timeout = None\<rparr>"

definition get_weather_request :: "platform \<Rightarrow> json \<Rightarrow> json \<Rightarrow> request" where
  "get_weather_request P lat lon =
     \<lparr>url = base_url @ ''/weather'',
      params = [(''lat'', lat), (''lon'', lon), (''appid'', JStr (api_key P)),
                (''lang'', JStr ''en''), (''units'', JStr ''standard'')],
      headers = [(''Accept-Language'', ''en'')],
      timeout = None\<rparr>"

text \<open>\<^verbatim>\<open>weather_data["location"] = {...}\<close>: item assignment with a string key works on a
  dict only.\<close>

fun py_setitem :: "json \<Rightarrow> string \<Rightarrow> json \<Rightarrow> json option" where
  "py_setitem (JObj kvs) key v = Some (JObj (AList.update key v kvs))"
| "py_setitem _ key v = None"

definition WeatherService_get_weather :: "platform \<Rightarrow> string \<Rightarrow> json option \<times> request list" where
  "WeatherService_get_weather P city =
     (let geo = get_weather_geo_request P city in
      case http_get P geo of
        Raises e \<Rightarrow> (None, [geo])
      | Returns locations \<Rightarrow>
          if \<not> py_truthy locations then (None, [geo])
          else (case py_first locations of
                  None \<Rightarrow> (None, [geo])
                | Some location \<Rightarrow>
                   (case py_getitem location ''lat'' of
                      None \<Rightarrow> (None, [geo])
                    | Some lat \<Rightarrow>
                       (case py_getitem location ''lon'' of
                          None \<Rightarrow> (None, [geo])
                        | Some lon \<Rightarrow>
                           (let req = get_weather_request P lat lon in
                            (case http_get P req of
                               Raises e \<Rightarrow> None
                             | Returns weather_data \<Rightarrow>
                                 do {
                                   loc \<leftarrow> location_fields location;
                                   py_setitem weather_data ''location'' loc
                                 },
                             [geo, req]))))))"

text \<open>\<^verbatim>\<open>WeatherService.get_monthly_forecast\<close>.  The entry a sample seeds:\<close>

definition daily_entry :: "json \<Rightarrow> json option" where
  "daily_entry item = do {
     dt \<leftarrow> py_getitem item ''dt'';
     main \<leftarrow> py_getitem item ''main'';
     temp \<leftarrow> py_getitem main ''temp'';
     temp_min \<leftarrow> py_getitem main ''temp_min'';
     temp_max \<leftarrow> py_getitem main ''temp_max'';
     humidity \<leftarrow> py_getitem main ''humidity'';
     weather \<leftarrow> py_getitem item ''weather'';
     wind \<leftarrow> py_getitem item ''wind'';
     speed \<leftarrow> py_getitem wind ''speed'';
     rain \<leftarrow> py_get item ''rain'' (JObj []);
     rain3h \<leftarrow> py_get rain ''3h'' (JInt 0);
     Some (JObj [(''dt'', dt),
                 (''temp'', JObj [(''day'', temp), (''min'', temp_min), (''max'', temp_max)]),
                 (''humidity'', humidity),
                 (''weather'', weather),
                 (''speed'', speed),
                 (''rain'', rain3h)])
   }"

text \<open>The date of a sample: \<^verbatim>\<open>datetime.fromtimestamp(item['dt']).strftime('%Y-%m-%d')\<close>.\<close>

definition sample_date :: "platform \<Rightarrow> json \<Rightarrow> string option" where
  "sample_date P item = do { dt \<leftarrow> py_getitem item ''dt''; local_date P dt }"

text \<open>The loop over \<^verbatim>\<open>data['list']\<close>; \<open>daily_data\<close> is the dict built so far, in insertion
  order.  A sample of a date that is already a key is skipped after its date is computed.\<close>

fun aggregate :: "platform \<Rightarrow> json list \<Rightarrow> (string \<times> json) list \<Rightarrow> (string \<times> json) list option" where
  "aggregate P [] daily_data = Some daily_data"
| "aggregate P (item # items) daily_data =
     (case sample_date P item of
        None \<Rightarrow> None
      | Some date \<Rightarrow>
          if map_of daily_data date = None
          then (case daily_entry item of
                  None \<Rightarrow> None
                | Some entry \<Rightarrow> aggregate P items (AList.update date entry daily_data))
          else aggregate P items daily_data)"

definition forecast_report :: "platform \<Rightarrow> json \<Rightarrow> json option" where
  "forecast_report P data = do {
     samples \<leftarrow> py_getitem data ''list'';
     items \<leftarrow> py_iter samples;
     daily_data \<leftarrow> aggregate P items [];
     city \<leftarrow> py_getitem data ''city'';
     cod \<leftarrow> py_getitem data ''cod'';
     Some (JObj [(''city'', city),
                 (''cod'', cod),
                 (''message'', JInt 0),
                 (''cnt'', JInt (int (length daily_data))),
                 (''list'', JArr (map snd daily_data))])
   }"

definition forecast_request :: "platform \<Rightarrow> json \<Rightarrow> json \<Rightarrow> request" where
  "forecast_request P lat lon =
     \<lparr>url = base_url @ ''/forecast'',
      params = [(''lat'', lat), (''lon'', lon), (''appid'', JStr (api_key P)),
                (''units'', JStr ''standard''), (''cnt'', JInt 40)],
      headers = [],
      timeout = Some 30\<rparr>"

definition WeatherService_get_monthly_forecast ::
  "platform \<Rightarrow> json \<Rightarrow> json \<Rightarrow> json option \<times> request list" where
  "WeatherService_get_monthly_forecast P lat lon =
     (let req = forecast_request P lat lon in
      (case http_get P req of
         Raises e \<Rightarrow> None
       | Returns data \<Rightarrow> forecast_report P data,
       [req]))"

section \<open>app/main.py\<close>

definition WEATHER_API_URL :: string where
  "WEATHER_API_URL = ''https://api.openweathermap.org/data/2.5/weather''"

text \<open>\<^verbatim>\<open>get_location\<close> of the main module: the service's answer, validated as a
  \<^verbatim>\<open>LocationData\<close>; any exception is logged and becomes \<^verbatim>\<open>None\<close>.\<close>

definition main_get_location :: "platform \<Rightarrow> string \<Rightarrow> json option \<times> request list" where
  "main_get_location P city =
     (case WeatherService_get_location P city of
        (None, calls) \<Rightarrow> (None, calls)
      | (Some location_data, calls) \<Rightarrow>
          (if py_truthy location_data then LocationData P location_data else None, calls))"

text \<open>\<^verbatim>\<open>get_weather\<close> of the main module: one call through a client built with
  \<^verbatim>\<open>timeout=10.0\<close>, and the three \<^verbatim>\<open>except\<close> clauses in their order.\<close>

definition main_weather_request :: "platform \<Rightarrow> json \<Rightarrow> json \<Rightarrow> request" where
  "main_weather_request P lat lon =
     \<lparr>url = WEATHER_API_URL,
      params = [(''lat'', lat), (''lon'', lon), (''appid'', JStr (api_key P)),
                (''lang'', JStr ''zh_cn'')],
      headers = [],
      timeout = Some 10\<rparr>"

definition main_get_weather ::
  "platform \<Rightarrow> json \<Rightarrow> json \<Rightarrow> (http_exception + json) \<times> request list" where
  "main_get_weather P lat lon =
     (let req = main_weather_request P lat lon in
      (case http_get P req of
         Returns data \<Rightarrow> Inr data
       | Raises TimeoutException \<Rightarrow> Inl (HTTPException 504 ''Request timeout'')
       | Raises (HTTPStatusError code) \<Rightarrow>
           Inl (HTTPException 500 (str_of P (Remote (HTTPStatusError code))))
       | Raises e \<Rightarrow>
           Inl (HTTPException 500 (''Internal server error: '' @ str_of P (Remote e))),
       [req]))"

text \<open>
  \<^verbatim>\<open>dict(weather_data)\<close> followed by \<^verbatim>\<open>**weather_dict\<close>: a dict is copied; a list is read
  as a sequence of pairs (a two-element list, a two-character string, or the two keys of a
  dict), a later pair replacing the value of an earlier one with the same key; an empty
  string gives the empty dict.  The unpacking needs every key to be a string.  Everything
  else raises.
\<close>

fun py_pair :: "json \<Rightarrow> (string \<times> json) option" where
  "py_pair (JArr [JStr k, v]) = Some (k, v)"
| "py_pair (JStr [a, b]) = Some ([a], JStr [b])"
| "py_pair (JObj [(k1, v1), (k2, v2)]) = Some (k1, JStr k2)"
| "py_pair _ = None"

fun py_pairs :: "json list \<Rightarrow> (string \<times> json) list \<Rightarrow> (string \<times> json) list option" where
  "py_pairs [] d = Some d"
| "py_pairs (x # xs) d =
     (case py_pair x of
        None \<Rightarrow> None
      | Some (k, v) \<Rightarrow> py_pairs xs (AList.update k v d))"

fun py_dict :: "json \<Rightarrow> (string \<times> json) list option" where
  "py_dict (JObj kvs) = Some kvs"
| "py_dict (JArr xs) = py_pairs xs []"
| "py_dict (JStr []) = Some []"
| "py_dict _ = None"

text \<open>The body of the \<^verbatim>\<open>try\<close> of \<^verbatim>\<open>get_city_weather\<close>; \<open>Inl\<close> is the exception that
  leaves it.\<close>

definition get_city_weather_try :: "platform \<Rightarrow> string \<Rightarrow> (raised + json) \<times> request list" where
  "get_city_weather_try P city =
     (if city = [] then (Inl (Http (HTTPException 422 ''City name cannot be empty'')), [])
      else
        (case main_get_location P city of
           (None, calls) \<Rightarrow> (Inl (Http (HTTPException 404 ''City not found'')), calls)
         | (Some location_dict, calls) \<Rightarrow>
             (case (py_getitem location_dict ''lat'', py_getitem location_dict ''lon'') of
                (Some lat, Some lon) \<Rightarrow>
                  (case main_get_weather P lat lon of
                     (Inl e, calls') \<Rightarrow> (Inl (Http e), calls @ calls')
                   | (Inr weather_data, calls') \<Rightarrow>
                       (case py_dict weather_data of
                          None \<Rightarrow> (Inl (Local weather_data), calls @ calls')
                        | Some weather_dict \<Rightarrow>
                            (let merged = JObj (AList.update ''location'' location_dict weather_dict) in
                             case WeatherData P merged of
                               None \<Rightarrow> (Inl (Local merged), calls @ calls')
                             | Some report \<Rightarrow> (Inr report, calls @ calls'))))
              | _ \<Rightarrow> (Inl (Local location_dict), calls))))"

text \<open>\<^verbatim>\<open>get_city_weather\<close>: an \<^verbatim>\<open>HTTPException\<close> is raised again as it is, anything else
  becomes a 500.\<close>

definition get_city_weather :: "platform \<Rightarrow> string \<Rightarrow> (http_exception + json) \<times> request list" where
  "get_city_weather P city =
     (case get_city_weather_try P city of
        (Inr report, calls) \<Rightarrow> (Inr report, calls)
      | (Inl (Http e), calls) \<Rightarrow> (Inl e, calls)
      | (Inl e, calls) \<Rightarrow>
          (Inl (HTTPException 500 (''Internal server error: '' @ str_of P e)), calls))"

section \<open>app/api/weather.py\<close>

text \<open>\<^verbatim>\<open>get_weather\<close> of the router: the empty-city check is outside the \<^verbatim>\<open>try\<close>; inside,
  every exception, the \<^verbatim>\<open>HTTPException\<close> raised there included, is caught by
  \<^verbatim>\<open>except Exception\<close>.\<close>

definition api_get_weather_try :: "platform \<Rightarrow> string \<Rightarrow> (raised + json) \<times> request list" where
  "api_get_weather_try P city =
     (case WeatherService_get_weather P city of
        (None, calls) \<Rightarrow>
          (Inl (Http (HTTPException 500 ''Internal server error: City not found'')), calls)
      | (Some data, calls) \<Rightarrow>
          (if py_truthy data then Inr data
           else Inl (Http (HTTPException 500 ''Internal server error: City not found'')), calls))"

definition api_get_weather :: "platform \<Rightarrow> string \<Rightarrow> (http_exception + json) \<times> request list" where
  "api_get_weather P city =
     (if city = [] then (Inl (HTTPException 404 ''Not Found''), [])
      else
        (case api_get_weather_try P city of
           (Inr data, calls) \<Rightarrow> (Inr data, calls)
         | (Inl e, calls) \<Rightarrow>
             (Inl (HTTPException 500 (''Internal server error: '' @ str_of P e)), calls)))"

text \<open>\<^verbatim>\<open>get_monthly_weather\<close>, built the same way.\<close>

definition get_monthly_weather_try :: "platform \<Rightarrow> string \<Rightarrow> (raised + json) \<times> request list" where
  "get_monthly_weather_try P city =
     (case WeatherService_get_location P city of
        (None, calls) \<Rightarrow>
          (Inl (Http (HTTPException 404 (''City '' @ [CHR 0x27] @ city @ [CHR 0x27] @ '' not found''))), calls)
      | (Some location, calls) \<Rightarrow>
          if \<not> py_truthy location
          then (Inl (Http (HTTPException 404 (''City '' @ [CHR 0x27] @ city @ [CHR 0x27] @ '' not found''))), calls)
          else
            (case (py_getitem location ''lat'', py_getitem location ''lon'') of
               (Some lat, Some lon) \<Rightarrow>
                 (case WeatherService_get_monthly_forecast P lat lon of
                    (None, calls') \<Rightarrow>
                      (Inl (Http (HTTPException 500 ''Failed to fetch forecast data'')), calls @ calls')
                  | (Some forecast, calls') \<Rightarrow>
                      (if py_truthy forecast then Inr forecast
                       else Inl (Http (HTTPException 500 ''Failed to fetch forecast data'')),
                       calls @ calls'))
             | _ \<Rightarrow> (Inl (Local location), calls)))"

definition get_monthly_weather :: "platform \<Rightarrow> string \<Rightarrow> (http_exception + json) \<times> request list" where
  "get_monthly_weather P city =
     (if city = [] then (Inl (HTTPException 404 ''City not found''), [])
      else
        (case get_monthly_weather_try P city of
           (Inr forecast, calls) \<Rightarrow> (Inr forecast, calls)
         | (Inl e, calls) \<Rightarrow> (Inl (HTTPException 500 ''Internal server error''), calls)))"

section \<open>Routing\<close>

text \<open>
  The application registers its routes in this order: the documentation routes that the
  framework adds when the application object is built, the static mount, the handlers of
  \<^verbatim>\<open>app/main.py\<close> as their decorators run, then the two routers included at the end of
  the module.  A path is a sequence of literal text and parameters; a parameter matches a
  non-empty run of characters other than \<^verbatim>\<open>/\<close>, the tail of a mount matches anything.  The
  first route that matches the whole path serves the request.
\<close>

datatype piece = Text string | Param | Tail

datatype endpoint =
    openapi
  | swagger_ui_html
  | swagger_ui_redirect
  | redoc_html
  | static
  | home
  | city_weather
  | favicon
  | monthly_dashboard
  | router_weather
  | router_monthly_weather
  | htmx_demo
  | htmx_search
  | weather_card

definition routes :: "(piece list \<times> endpoint) list" where
  "routes =
     [([Text ''/openapi.json''], openapi),
      ([Text ''/docs''], swagger_ui_html),
      ([Text ''/docs/oauth2-redirect''], swagger_ui_redirect),
      ([Text ''/redoc''], redoc_html),
      ([Text ''/static/'', Tail], static),
      ([Text ''/''], home),
      ([Text ''/api/weather/'', Param], city_weather),
      ([Text ''/favicon.ico''], favicon),
      ([Text ''/monthly''], monthly_dashboard),
      ([Text ''/api/weather/'', Param], router_weather),
      ([Text ''/api/weather/monthly/'', Param], router_monthly_weather),
      ([Text ''/htmx/demo''], htmx_demo),
      ([Text ''/htmx/search''], htmx_search),
      ([Text ''/htmx/weather-card/'', Param], weather_card)]"

fun match_path :: "piece list \<Rightarrow> string \<Rightarrow> string list option" where
  "match_path [] path = (if path = [] then Some [] else None)"
| "match_path (Text s # ps) path =
     (if take (length s) path = s then match_path ps (drop (length s) path) else None)"
| "match_path (Param # ps) path =
     (let v = takeWhile (\<lambda>c. c \<noteq> CHR ''/'') path in
      if v = [] then None
      else map_option ((#) v) (match_path ps (dropWhile (\<lambda>c. c \<noteq> CHR ''/'') path)))"
| "match_path (Tail # ps) path = Some [path]"

fun route_for :: "(piece list \<times> endpoint) list \<Rightarrow> string \<Rightarrow> (endpoint \<times> string list) option" where
  "route_for [] path = None"
| "route_for ((pat, ep) # rs) path =
     (case match_path pat path of
        Some args \<Rightarrow> Some (ep, args)
      | None \<Rightarrow> route_for rs path)"

text \<open>
  The answer to a GET: a JSON response with its status and body, the plain 500 of the
  server when the handler's result cannot be rendered, a redirect when only the path with
  its trailing slashes removed, or one added, has a route, or one of the pages and files
  that are outside this development.  An \<^verbatim>\<open>HTTPException\<close> leaves as
  \<^verbatim>\<open>{"detail": ...}\<close> with its status.  The content a handler returns is rendered with
  \<^verbatim>\<open>allow_nan=False\<close>, which raises on a float that is not finite, after the handler and
  its \<^verbatim>\<open>except\<close> clauses are done.
\<close>

datatype response =
    JSONResponse nat json
  | ServerErrorResponse
  | RedirectResponse string
  | Rendered endpoint

fun allow_nan_free :: "json \<Rightarrow> bool" where
  "allow_nan_free (JNonFinite x) = False"
| "allow_nan_free (JArr xs) = (\<forall>x \<in> set xs. allow_nan_free x)"
| "allow_nan_free (JObj kvs) = (\<forall>v \<in> snd ` set kvs. allow_nan_free v)"
| "allow_nan_free _ = True"

fun respond :: "http_exception + json \<Rightarrow> response" where
  "respond (Inl (HTTPException status_code detail)) =
     JSONResponse status_code (JObj [(''detail'', JStr detail)])"
| "respond (Inr content) =
     (if allow_nan_free content then JSONResponse 200 content else ServerErrorResponse)"

text \<open>\<^verbatim>\<open>path.rstrip("/")\<close> when the path ends with a slash, the path with a slash added
  otherwise.\<close>

definition redirect_path :: "string \<Rightarrow> string" where
  "redirect_path path =
     (if path \<noteq> [] \<and> last path = CHR ''/''
      then rev (dropWhile (\<lambda>c. c = CHR ''/'') (rev path))
      else path @ ''/'')"

definition handle_get :: "platform \<Rightarrow> string \<Rightarrow> response \<times> request list" where
  "handle_get P path =
     (case route_for routes path of
        Some (city_weather, [city]) \<Rightarrow>
          (case get_city_weather P city of (r, calls) \<Rightarrow> (respond r, calls))
      | Some (router_weather, [city]) \<Rightarrow>
          (case api_get_weather P city of (r, calls) \<Rightarrow> (respond r, calls))
      | Some (router_monthly_weather, [city]) \<Rightarrow>
          (case get_monthly_weather P city of (r, calls) \<Rightarrow> (respond r, calls))
      | Some (ep, args) \<Rightarrow> (Rendered ep, [])
      | None \<Rightarrow>
          (if path \<noteq> ''/'' \<and> route_for routes (redirect_path path) \<noteq> None
           then (RedirectResponse (redirect_path path), [])
           else (JSONResponse 404 (JObj [(''detail'', JStr ''Not Found'')]), [])))"

section \<open>Example platforms\<close>

text \<open>A platform around a given provider: a two-day calendar, validations that accept
  every dict as it is, and exceptions without text.\<close>

definition example_date :: "json \<Rightarrow> string option" where
  "example_date x =
     (case x of
        JInt n \<Rightarrow> Some (if n < 86400 then ''1970-01-01'' else ''1970-01-02'')
      | _ \<Rightarrow> None)"

definition example_platform :: "(request \<Rightarrow> reply) \<Rightarrow> platform" where
  "example_platform provider =
     \<lparr>http_get = provider,
      api_key = ''k'',
      local_date = example_date,
      LocationData = Some,
      WeatherData = Some,
      str_of = (\<lambda>e. [])\<rparr>"

definition example_location :: json where
  "example_location =
     JObj [(''name'', JStr ''London''), (''lat'', JFloat (103 / 2)), (''lon'', JFloat (1 / 8)),
           (''country'', JStr ''GB''), (''state'', JStr ''England'')]"

text \<open>A provider that answers the geocoding endpoint with one reply and every other
  endpoint with another.\<close>

definition example_provider :: "reply \<Rightarrow> reply \<Rightarrow> request \<Rightarrow> reply" where
  "example_provider geo weather r = (if url r = geo_url @ ''/direct'' then geo else weather)"

section \<open>Provider contracts\<close>

text \<open>A geocoding match as the provider documents it: an object with \<^verbatim>\<open>lat\<close>, \<^verbatim>\<open>lon\<close>,
  \<^verbatim>\<open>name\<close> and \<^verbatim>\<open>country\<close>.\<close>

definition geo_match :: "json \<Rightarrow> bool" where
  "geo_match l \<longleftrightarrow>
     py_getitem l ''lat'' \<noteq> None \<and> py_getitem l ''lon'' \<noteq> None \<and>
     py_getitem l ''name'' \<noteq> None \<and> py_getitem l ''country'' \<noteq> None"

section \<open>Kinds of outbound calls\<close>



section \<open>The daily forecast, stated independently of the loop\<close>

text \<open>The distinct elements of a list, in the order of their first appearance.\<close>

definition first_seen :: "'a list \<Rightarrow> 'a list" where
  "first_seen xs = rev (remdups (rev xs))"

text \<open>The first sample of a list that falls on a given date.\<close>

definition first_sample :: "platform \<Rightarrow> json list \<Rightarrow> string \<Rightarrow> json option" where
  "first_sample P items date = List.find (\<lambda>s. sample_date P s = Some date) items"

text \<open>A forecast sample as the provider documents it: a timestamp that the host can turn
  into a date, \<^verbatim>\<open>main\<close> with the three temperatures and the humidity, \<^verbatim>\<open>weather\<close>,
  \<^verbatim>\<open>wind\<close> with its speed, and, optionally, \<^verbatim>\<open>rain\<close> as an object.\<close>

definition forecast_sample :: "platform \<Rightarrow> json \<Rightarrow> bool" where
  "forecast_sample P s \<longleftrightarrow>
     (case py_getitem s ''dt'' of None \<Rightarrow> False | Some dt \<Rightarrow> local_date P dt \<noteq> None) \<and>
     (case py_getitem s ''main'' of
        None \<Rightarrow> False
      | Some main \<Rightarrow>
          py_getitem main ''temp'' \<noteq> None \<and> py_getitem main ''temp_min'' \<noteq> None \<and>
          py_getitem main ''temp_max'' \<noteq> None \<and> py_getitem main ''humidity'' \<noteq> None) \<and>
     py_getitem s ''weather'' \<noteq> None \<and>
     (case py_getitem s ''wind'' of None \<Rightarrow> False | Some wind \<Rightarrow> py_getitem wind ''speed'' \<noteq> None) \<and>
     (case py_getitem s ''rain'' of
        None \<Rightarrow> True
      | Some rain \<Rightarrow> (case rain of JObj kvs \<Rightarrow> True | _ \<Rightarrow> False))"

text \<open>The rain volume of a sample: its \<^verbatim>\<open>rain["3h"]\<close>, and 0 when \<^verbatim>\<open>rain\<close> or its
  \<^verbatim>\<open>3h\<close> is absent.\<close>

definition rain_volume :: "json \<Rightarrow> json" where
  "rain_volume s =
     (case py_getitem s ''rain'' of
        None \<Rightarrow> JInt 0
      | Some rain \<Rightarrow> (case py_getitem rain ''3h'' of None \<Rightarrow> JInt 0 | Some v \<Rightarrow> v))"

text \<open>An entry that takes every field from one sample.\<close>

definition seeded_from :: "json \<Rightarrow> json \<Rightarrow> bool" where
  "seeded_from s entry \<longleftrightarrow>
     (case (py_getitem s ''main'', py_getitem s ''wind'', py_getitem entry ''temp'') of
        (Some main, Some wind, Some temp) \<Rightarrow>
          py_getitem entry ''dt'' = py_getitem s ''dt'' \<and>
          py_getitem temp ''day'' = py_getitem main ''temp'' \<and>
          py_getitem temp ''min'' = py_getitem main ''temp_min'' \<and>
          py_getitem temp ''max'' = py_getitem main ''temp_max'' \<and>
          py_getitem entry ''humidity'' = py_getitem main ''humidity'' \<and>
          py_getitem entry ''weather'' = py_getitem s ''weather'' \<and>
          py_getitem entry ''speed'' = py_getitem wind ''speed'' \<and>
          py_getitem entry ''rain'' = Some (rain_volume s)
      | _ \<Rightarrow> False)"

text \<open>A payload from which no report can be built: \<^verbatim>\<open>city\<close>, \<^verbatim>\<open>cod\<close> or an iterable
  \<^verbatim>\<open>list\<close> is missing, a sample has no readable date, or the first sample of a date is not
  a forecast sample.\<close>

definition malformed_sample :: "platform \<Rightarrow> json list \<Rightarrow> json \<Rightarrow> bool" where
  "malformed_sample P items s \<longleftrightarrow>
     (case sample_date P s of
        None \<Rightarrow> True
      | Some date \<Rightarrow> first_sample P items date = Some s \<and> \<not> forecast_sample P s)"

definition malformed_forecast :: "platform \<Rightarrow> json \<Rightarrow> bool" where
  "malformed_forecast P data \<longleftrightarrow>
     py_getitem data ''city'' = None \<or> py_getitem data ''cod'' = None \<or>
     (case py_getitem data ''list'' \<bind> py_iter of
        None \<Rightarrow> True
      | Some items \<Rightarrow> \<exists>s \<in> set items. malformed_sample P items s)"

text \<open>Example samples, three hours and one day apart, and a payload holding them.\<close>

definition example_sample :: "int \<Rightarrow> int \<Rightarrow> json" where
  "example_sample dt temp =
     JObj [(''dt'', JInt dt),
           (''main'', JObj [(''temp'', JInt temp), (''temp_min'', JInt (temp - 1)),
                            (''temp_max'', JInt (temp + 1)), (''humidity'', JInt 50)]),
           (''weather'', JArr []),
           (''wind'', JObj [(''speed'', JInt 3)])]"

definition example_forecast :: json where
  "example_forecast =
     JObj [(''cod'', JStr ''200''), (''message'', JInt 7), (''cnt'', JInt 3),
           (''list'', JArr [example_sample 0 280, example_sample 10800 285, example_sample 86400 290]),
           (''city'', JObj [(''name'', JStr ''London'')])]"

text \<open>The entry that an example sample seeds.\<close>

definition example_entry :: "int \<Rightarrow> int \<Rightarrow> json" where
  "example_entry dt temp =
     JObj [(''dt'', JInt dt),
           (''temp'', JObj [(''day'', JInt temp), (''min'', JInt (temp - 1)), (''max'', JInt (temp + 1))]),
           (''humidity'', JInt 50),
           (''weather'', JArr []),
           (''speed'', JInt 3),
           (''rain'', JInt 0)]"

section \<open>Location resolution\<close>

lemma location_fields_Some:
  "py_getitem l ''lat'' = Some a \<Longrightarrow> py_getitem l ''lon'' = Some b \<Longrightarrow>
   py_getitem l ''name'' = Some c \<Longrightarrow> py_getitem l ''country'' = Some d \<Longrightarrow>
   location_fields l = Some (JObj [(''lat'', a), (''lon'', b), (''name'', c), (''country'', d)])"
  by (simp add: location_fields_def)

text \<open>
  C4.  When the geocoding provider answers with a list whose first element, if there is one,
  is a match with \<^verbatim>\<open>lat\<close>, \<^verbatim>\<open>lon\<close>, \<^verbatim>\<open>name\<close> and \<^verbatim>\<open>country\<close>, \<^verbatim>\<open>get_location\<close> returns
  \<^verbatim>\<open>None\<close> exactly when the list is empty, and otherwise the four fields of the first
  element; nothing is asked of the later elements.
\<close>

theorem get_location_first_match:
  assumes reply: "http_get P (get_location_request P city) = Returns (JArr locations)"
    and contract: "\<forall>first rest. locations = first # rest \<longrightarrow> geo_match first"
  shows "(fst (WeatherService_get_location P city) = None \<longleftrightarrow> locations = [])
       \<and> (\<forall>first rest lat lon name country.
            locations = first # rest \<and> py_getitem first ''lat'' = Some lat
            \<and> py_getitem first ''lon'' = Some lon \<and> py_getitem first ''name'' = Some name
            \<and> py_getitem first ''country'' = Some country \<longrightarrow>
            fst (WeatherService_get_location P city) =
              Some (JObj [(''lat'', lat), (''lon'', lon), (''name'', name), (''country'', country)]))"
proof (cases locations)
  case Nil
  with reply show ?thesis by (simp add: WeatherService_get_location_def)
next
  case (Cons first rest)
  with contract have "geo_match first" by simp
  then obtain a b c d where f: "py_getitem first ''lat'' = Some a" "py_getitem first ''lon'' = Some b"
     "py_getitem first ''name'' = Some c" "py_getitem first ''country'' = Some d"
    by (auto simp: geo_match_def)
  have "fst (WeatherService_get_location P city) = location_fields first"
    using reply Cons by (simp add: WeatherService_get_location_def)
  with f Cons show ?thesis by (simp add: location_fields_Some)
qed

theorem get_location_first_match_witness:
  "fst (WeatherService_get_location (example_platform (\<lambda>r. Returns (JArr [example_location, JNull]))) ''London'')
     = Some (JObj [(''lat'', JFloat (103 / 2)), (''lon'', JFloat (1 / 8)), (''name'', JStr ''London''), (''country'', JStr ''GB'')])"
  using get_location_first_match [of "example_platform (\<lambda>r. Returns (JArr [example_location, JNull]))" "''London''" "[example_location, JNull]"]
  by (simp add: example_platform_def example_location_def geo_match_def)

section \<open>The current-weather service\<close>

text \<open>
  C9.  \<^verbatim>\<open>WeatherService.get_weather\<close> returns \<^verbatim>\<open>None\<close> when the geocoding provider has no
  match, when the geocoding call raises, when the first match lacks a field, when the weather
  call raises (timeout, transport failure, non-success status, a body that is not JSON) and
  when the weather payload is not an object: \<^verbatim>\<open>None\<close> does not tell these apart.
\<close>

theorem get_weather_none_is_ambiguous:
  assumes "http_get P (get_weather_geo_request P city) = Returns (JArr [])
         \<or> (\<exists>e. http_get P (get_weather_geo_request P city) = Raises e)
         \<or> (\<exists>location rest. http_get P (get_weather_geo_request P city) = Returns (JArr (location # rest))
              \<and> location_fields location = None)
         \<or> (\<exists>location rest lat lon.
               http_get P (get_weather_geo_request P city) = Returns (JArr (location # rest))
             \<and> py_getitem location ''lat'' = Some lat \<and> py_getitem location ''lon'' = Some lon
             \<and> ((\<exists>e. http_get P (get_weather_request P lat lon) = Raises e)
                \<or> (\<exists>data. http_get P (get_weather_request P lat lon) = Returns data
                      \<and> (\<forall>kvs. data \<noteq> JObj kvs))))"
  shows "fst (WeatherService_get_weather P city) = None"
proof -
  let ?geo = "http_get P (get_weather_geo_request P city)"
  have step: "fst (WeatherService_get_weather P city) =
      (case http_get P (get_weather_request P lat lon) of
         Raises e \<Rightarrow> None
       | Returns weather_data \<Rightarrow> location_fields location \<bind> py_setitem weather_data ''location'')"
    if "?geo = Returns (JArr (location # rest))"
      and "py_getitem location ''lat'' = Some lat" and "py_getitem location ''lon'' = Some lon"
    for location rest lat lon
    using that by (simp add: WeatherService_get_weather_def Let_def)
  from assms consider
      (empty) "?geo = Returns (JArr [])"
    | (raised) e where "?geo = Raises e"
    | (fields) location rest where "?geo = Returns (JArr (location # rest))" "location_fields location = None"
    | (weather) location rest lat lon where "?geo = Returns (JArr (location # rest))"
        "py_getitem location ''lat'' = Some lat" "py_getitem location ''lon'' = Some lon"
        "(\<exists>e. http_get P (get_weather_request P lat lon) = Raises e)
          \<or> (\<exists>data. http_get P (get_weather_request P lat lon) = Returns data \<and> (\<forall>kvs. data \<noteq> JObj kvs))"
    by blast
  then show ?thesis
  proof cases
    case empty
    then show ?thesis by (simp add: WeatherService_get_weather_def)
  next
    case raised
    then show ?thesis by (simp add: WeatherService_get_weather_def)
  next
    case fields
    show ?thesis
    proof (cases "py_getitem location ''lat''")
      case None
      with fields show ?thesis by (simp add: WeatherService_get_weather_def)
    next
      case lat: (Some lat)
      show ?thesis
      proof (cases "py_getitem location ''lon''")
        case None
        with fields lat show ?thesis by (simp add: WeatherService_get_weather_def)
      next
        case (Some lon)
        with step [OF fields(1) lat] fields(2) show ?thesis
          by (simp split: reply.splits)
      qed
    qed
  next
    case weather
    from weather(4) show ?thesis
    proof
      assume "\<exists>e. http_get P (get_weather_request P lat lon) = Raises e"
      with step [OF weather(1-3)] show ?thesis by auto
    next
      assume "\<exists>data. http_get P (get_weather_request P lat lon) = Returns data \<and> (\<forall>kvs. data \<noteq> JObj kvs)"
      then obtain data where d: "http_get P (get_weather_request P lat lon) = Returns data" "\<forall>kvs. data \<noteq> JObj kvs"
        by blast
      then have "py_setitem data ''location'' v = None" for v
        by (cases data) simp_all
      with step [OF weather(1-3)] d(1) show ?thesis
        by (simp split: bind_splits)
    qed
  qed
qed

theorem get_weather_none_is_ambiguous_witness:
  "fst (WeatherService_get_weather (example_platform (\<lambda>r. Returns (JArr []))) ''Atlantis'') = None
   \<and> fst (WeatherService_get_weather (example_platform (\<lambda>r. Raises TransportError)) ''London'') = None"
  using get_weather_none_is_ambiguous [of "example_platform (\<lambda>r. Returns (JArr []))" "''Atlantis''"]
    get_weather_none_is_ambiguous [of "example_platform (\<lambda>r. Raises TransportError)" "''London''"]
  by (simp add: example_platform_def)

text \<open>
  C5.  When the geocoding call returns a first match with its four fields and the weather
  call returns an object, the report is that object with the resolved location under
  \<^verbatim>\<open>"location"\<close>: every other key keeps its value, and the other entries keep their order.
\<close>

theorem get_weather_adds_only_location:
  assumes geo: "http_get P (get_weather_geo_request P city) = Returns (JArr (location # rest))"
    and fields: "py_getitem location ''lat'' = Some lat" "py_getitem location ''lon'' = Some lon"
      "py_getitem location ''name'' = Some name" "py_getitem location ''country'' = Some country"
    and weather: "http_get P (get_weather_request P lat lon) = Returns (JObj payload)"
  shows "\<exists>report. fst (WeatherService_get_weather P city) = Some (JObj report)
     \<and> map_of report ''location'' =
         Some (JObj [(''lat'', lat), (''lon'', lon), (''name'', name), (''country'', country)])
     \<and> (\<forall>key. key \<noteq> ''location'' \<longrightarrow> map_of report key = map_of payload key)
     \<and> filter (\<lambda>kv. fst kv \<noteq> ''location'') report = filter (\<lambda>kv. fst kv \<noteq> ''location'') payload"
proof -
  let ?loc = "JObj [(''lat'', lat), (''lon'', lon), (''name'', name), (''country'', country)]"
  have loc: "location_fields location = Some ?loc"
    using fields by (simp add: location_fields_def)
  have res: "fst (WeatherService_get_weather P city) = Some (JObj (AList.update ''location'' ?loc payload))"
    using geo fields weather loc by (simp add: WeatherService_get_weather_def)
  have frame: "filter (\<lambda>kv. fst kv \<noteq> k) (AList.update k v al) = filter (\<lambda>kv. fst kv \<noteq> k) al" for k :: string and v :: json and al
    by (induction al) auto
  show ?thesis
    using res frame [of "''location''" ?loc payload]
    by (simp add: update_conv')
qed

theorem get_weather_adds_only_location_witness:
  "\<exists>report.
     fst (WeatherService_get_weather
            (example_platform (example_provider (Returns (JArr [example_location]))
               (Returns (JObj [(''name'', JStr ''London''), (''extra'', JInt 1)]))))
            ''London'') = Some (JObj report)
     \<and> map_of report ''location'' =
         Some (JObj [(''lat'', JFloat (103 / 2)), (''lon'', JFloat (1 / 8)),
                     (''name'', JStr ''London''), (''country'', JStr ''GB'')])
     \<and> map_of report ''extra'' = Some (JInt 1)"
proof -
  let ?P = "example_platform (example_provider (Returns (JArr [example_location]))
               (Returns (JObj [(''name'', JStr ''London''), (''extra'', JInt 1)])))"
  have geo: "http_get ?P (get_weather_geo_request ?P ''London'') = Returns (JArr (example_location # []))"
    by (simp add: example_platform_def example_provider_def get_weather_geo_request_def)
  have weather: "http_get ?P (get_weather_request ?P (JFloat (103 / 2)) (JFloat (1 / 8)))
      = Returns (JObj [(''name'', JStr ''London''), (''extra'', JInt 1)])"
    by (simp add: example_platform_def example_provider_def get_weather_request_def geo_url_def base_url_def)
  have f: "py_getitem example_location ''lat'' = Some (JFloat (103 / 2))"
    "py_getitem example_location ''lon'' = Some (JFloat (1 / 8))"
    "py_getitem example_location ''name'' = Some (JStr ''London'')"
    "py_getitem example_location ''country'' = Some (JStr ''GB'')"
    by (simp_all add: example_location_def)
  from get_weather_adds_only_location [OF geo f weather] show ?thesis
    by auto
qed

section \<open>The current-weather endpoint\<close>

text \<open>
  C6.  The current-weather call of \<^verbatim>\<open>app/main.py\<close> is issued once, through a client with a
  timeout of 10 seconds.  When the call times out the function raises an
  \<^verbatim>\<open>HTTPException\<close> with status 504, every other failure of the call gives status 500, and
  \<^verbatim>\<open>get_city_weather\<close> passes the 504 on to the client.
\<close>

theorem main_weather_timeout:
  "timeout (main_weather_request P lat lon) = Some 10
   \<and> snd (main_get_weather P lat lon) = [main_weather_request P lat lon]
   \<and> (http_get P (main_weather_request P lat lon) = Raises TimeoutException \<longrightarrow>
        fst (main_get_weather P lat lon) = Inl (HTTPException 504 ''Request timeout''))
   \<and> (\<forall>e. e \<noteq> TimeoutException \<and> http_get P (main_weather_request P lat lon) = Raises e \<longrightarrow>
        (\<exists>detail. fst (main_get_weather P lat lon) = Inl (HTTPException 500 detail)))
   \<and> (\<forall>location. city \<noteq> [] \<and> fst (main_get_location P city) = Some location
        \<and> py_getitem location ''lat'' = Some lat \<and> py_getitem location ''lon'' = Some lon
        \<and> http_get P (main_weather_request P lat lon) = Raises TimeoutException \<longrightarrow>
        respond (fst (get_city_weather P city)) = JSONResponse 504 (JObj [(''detail'', JStr ''Request timeout'')]))"
proof -
  have a: "timeout (main_weather_request P lat lon) = Some 10"
    by (simp add: main_weather_request_def)
  have b: "snd (main_get_weather P lat lon) = [main_weather_request P lat lon]"
    by (simp add: main_get_weather_def Let_def)
  have c: "fst (main_get_weather P lat lon) = Inl (HTTPException 504 ''Request timeout'')"
    if "http_get P (main_weather_request P lat lon) = Raises TimeoutException"
    using that by (simp add: main_get_weather_def Let_def)
  have d: "\<exists>detail. fst (main_get_weather P lat lon) = Inl (HTTPException 500 detail)"
    if "e \<noteq> TimeoutException" and "http_get P (main_weather_request P lat lon) = Raises e" for e
    using that by (cases e) (simp_all add: main_get_weather_def Let_def)
  have e: "respond (fst (get_city_weather P city)) = JSONResponse 504 (JObj [(''detail'', JStr ''Request timeout'')])"
    if h: "city \<noteq> []" "fst (main_get_location P city) = Some location"
      "py_getitem location ''lat'' = Some lat" "py_getitem location ''lon'' = Some lon"
      "http_get P (main_weather_request P lat lon) = Raises TimeoutException" for location
  proof -
    obtain calls where "main_get_location P city = (Some location, calls)"
      using h(2) by (cases "main_get_location P city") simp
    moreover have "main_get_weather P lat lon = (Inl (HTTPException 504 ''Request timeout''), [main_weather_request P lat lon])"
      using b c [OF h(5)] by (cases "main_get_weather P lat lon") simp
    ultimately show ?thesis
      using h by (simp add: get_city_weather_def get_city_weather_try_def)
  qed
  show ?thesis using a b c d e by blast
qed

theorem main_weather_timeout_witness:
  "respond (fst (get_city_weather
      (example_platform (example_provider (Returns (JArr [example_location])) (Raises TimeoutException)))
      ''London'')) = JSONResponse 504 (JObj [(''detail'', JStr ''Request timeout'')])"
proof -
  let ?P = "example_platform (example_provider (Returns (JArr [example_location])) (Raises TimeoutException))"
  let ?loc = "JObj [(''lat'', JFloat (103 / 2)), (''lon'', JFloat (1 / 8)),
                     (''name'', JStr ''London''), (''country'', JStr ''GB'')]"
  have loc: "fst (main_get_location ?P ''London'') = Some ?loc"
    by (simp add: main_get_location_def WeatherService_get_location_def example_platform_def
        example_provider_def get_location_request_def example_location_def location_fields_def)
  have to: "http_get ?P (main_weather_request ?P (JFloat (103 / 2)) (JFloat (1 / 8))) = Raises TimeoutException"
    by (simp add: example_platform_def example_provider_def main_weather_request_def geo_url_def WEATHER_API_URL_def)
  from main_weather_timeout [of ?P "JFloat (103 / 2)" "JFloat (1 / 8)" "''London''"]
  have "\<forall>location. ''London'' \<noteq> [] \<and> fst (main_get_location ?P ''London'') = Some location
        \<and> py_getitem location ''lat'' = Some (JFloat (103 / 2)) \<and> py_getitem location ''lon'' = Some (JFloat (1 / 8))
        \<and> http_get ?P (main_weather_request ?P (JFloat (103 / 2)) (JFloat (1 / 8))) = Raises TimeoutException \<longrightarrow>
        respond (fst (get_city_weather ?P ''London'')) = JSONResponse 504 (JObj [(''detail'', JStr ''Request timeout'')])"
    by blast
  with loc to show ?thesis by simp
qed

subsection \<open>Which handler serves a path\<close>

lemma param_segment:
  assumes "city \<noteq> []" and "CHR ''/'' \<notin> set city"
  shows "match_path [Param] city = Some [city]"
proof -
  have tw: "takeWhile (\<lambda>c. c \<noteq> CHR ''/'') city = city"
    using assms(2) by (auto simp: takeWhile_eq_all_conv)
  have dw: "dropWhile (\<lambda>c. c \<noteq> CHR ''/'') city = []"
    using assms(2) by (auto simp: dropWhile_eq_Nil_conv)
  show ?thesis using assms(1) by (simp add: tw dw)
qed

lemma route_city_weather:
  assumes "city \<noteq> []" "CHR ''/'' \<notin> set city"
  shows "route_for routes (''/api/weather/'' @ city) = Some (city_weather, [city])"
  using param_segment [OF assms] by (simp add: routes_def)

lemma param_segment_more:
  "CHR ''/'' \<notin> set seg \<Longrightarrow> rest \<noteq> [] \<Longrightarrow> match_path [Param] (seg @ CHR ''/'' # rest) = None"
  by (simp add: takeWhile_tail dropWhile_append3 Let_def)

lemma route_monthly_weather:
  assumes "city \<noteq> []" "CHR ''/'' \<notin> set city"
  shows "route_for routes (''/api/weather/monthly/'' @ city) = Some (router_monthly_weather, [city])"
proof -
  have "match_path [Param] (''monthly'' @ CHR ''/'' # city) = None"
    using assms by (intro param_segment_more) simp_all
  then show ?thesis
    using param_segment [OF assms] by (simp add: routes_def)
qed

text \<open>
  C3.  For a non-empty city name that is one path segment, when the geocoding provider
  returns no match, \<^verbatim>\<open>GET /api/weather/{city}\<close> is served by \<^verbatim>\<open>get_city_weather\<close> and
  answers 404 with the body \<^verbatim>\<open>{"detail": "City not found"}\<close>.
\<close>

theorem unresolved_city_is_404:
  assumes "city \<noteq> []" and "CHR ''/'' \<notin> set city"
    and "http_get P (get_location_request P city) = Returns (JArr [])"
  shows "fst (handle_get P (''/api/weather/'' @ city)) =
           JSONResponse 404 (JObj [(''detail'', JStr ''City not found'')])"
proof -
  have "main_get_location P city = (None, [get_location_request P city])"
    using assms(3) by (simp add: main_get_location_def WeatherService_get_location_def)
  then have "get_city_weather P city = (Inl (HTTPException 404 ''City not found''), [get_location_request P city])"
    using assms(1) by (simp add: get_city_weather_def get_city_weather_try_def)
  then show ?thesis
    using route_city_weather [OF assms(1,2)] by (simp add: handle_get_def)
qed

theorem unresolved_city_is_404_witness:
  "fst (handle_get (example_platform (\<lambda>r. Returns (JArr []))) ''/api/weather/InvalidCityName123456'') =
           JSONResponse 404 (JObj [(''detail'', JStr ''City not found'')])"
  using unresolved_city_is_404 [of "''InvalidCityName123456''" "example_platform (\<lambda>r. Returns (JArr []))"]
  by (simp add: example_platform_def)

text \<open>The handler of the router on the same path is registered later and never serves it;
  it would answer an unresolved city with 500.\<close>

lemma api_get_weather_unresolved:
  assumes "city \<noteq> []" and "http_get P (get_weather_geo_request P city) = Returns (JArr [])"
  shows "\<exists>detail. fst (api_get_weather P city) = Inl (HTTPException 500 detail)"
  using assms by (simp add: api_get_weather_def api_get_weather_try_def WeatherService_get_weather_def)

section \<open>Outbound calls per request\<close>










section \<open>The forecast service\<close>

subsection \<open>First appearances\<close>

lemma first_seen_Nil: "first_seen [] = []"
  by (simp add: first_seen_def)

lemma remdups_snoc: "remdups (ys @ [x]) = remdups (filter (\<lambda>y. y \<noteq> x) ys) @ [x]"
  by (induction ys) auto

lemma first_seen_Cons: "first_seen (x # xs) = x # filter (\<lambda>y. y \<noteq> x) (first_seen xs)"
proof -
  have "remdups (rev xs @ [x]) = remdups (filter (\<lambda>y. y \<noteq> x) (rev xs)) @ [x]"
    by (rule remdups_snoc)
  then show ?thesis
    by (simp add: first_seen_def remdups_filter rev_filter)
qed

lemma set_first_seen: "set (first_seen xs) = set xs"
  by (simp add: first_seen_def)

lemma length_first_seen: "length (first_seen xs) = card (set xs)"
  by (simp add: first_seen_def length_remdups_card_conv)

lemma update_absent: "k \<notin> fst ` set al \<Longrightarrow> AList.update k v al = al @ [(k, v)]"
  by (induction al) auto

lemma first_sample_Cons:
  "first_sample P (item # items) date =
     (if sample_date P item = Some date then Some item else first_sample P items date)"
  by (simp add: first_sample_def)

lemma first_sample_mem: "first_sample P items date = Some s \<Longrightarrow> s \<in> set items \<and> sample_date P s = Some date"
  by (auto simp: first_sample_def find_Some_iff)

lemma first_sample_exists:
  "s \<in> set items \<Longrightarrow> sample_date P s = Some date \<Longrightarrow> \<exists>s'. first_sample P items date = Some s'"
  by (cases "first_sample P items date") (auto simp: first_sample_def find_None_iff)

subsection \<open>The aggregation loop\<close>

lemma aggregate_Some:
  assumes "aggregate P items daily = Some out"
  shows "\<exists>dates new. map (sample_date P) items = map Some dates
           \<and> out = daily @ new
           \<and> map fst new = filter (\<lambda>d. d \<notin> fst ` set daily) (first_seen dates)
           \<and> (\<forall>(d, e) \<in> set new. \<exists>s. first_sample P items d = Some s \<and> daily_entry s = Some e)"
  using assms
proof (induction items arbitrary: daily out)
  case Nil
  then show ?case by (simp add: first_seen_Nil)
next
  case (Cons item items)
  from Cons.prems obtain d where d: "sample_date P item = Some d"
    by (auto split: option.splits)
  show ?case
  proof (cases "d \<in> fst ` set daily")
    case True
    then have "map_of daily d \<noteq> None"
      by (simp add: map_of_eq_None_iff)
    with Cons.prems d have "aggregate P items daily = Some out"
      by simp
    from Cons.IH [OF this] obtain dates new where
      ih: "map (sample_date P) items = map Some dates" "out = daily @ new"
        "map fst new = filter (\<lambda>x. x \<notin> fst ` set daily) (first_seen dates)"
        "\<forall>(x, e) \<in> set new. \<exists>s. first_sample P items x = Some s \<and> daily_entry s = Some e"
      by blast
    have keys: "map fst new = filter (\<lambda>x. x \<notin> fst ` set daily) (first_seen (d # dates))"
      using True ih(3) by (auto simp: first_seen_Cons intro: filter_cong)
    have "\<exists>s. first_sample P (item # items) x = Some s \<and> daily_entry s = Some e"
      if "(x, e) \<in> set new" for x e
    proof -
      from that have "x \<in> set (map fst new)" by force
      with ih(3) True have "x \<noteq> d" by auto
      with that ih(4) d show ?thesis by (auto simp: first_sample_Cons)
    qed
    with d ih(1,2) keys show ?thesis
      by (intro exI [of _ "d # dates"] exI [of _ new]) auto
  next
    case False
    then have none: "map_of daily d = None"
      by (simp add: map_of_eq_None_iff)
    with Cons.prems d obtain e where e: "daily_entry item = Some e"
      and rec: "aggregate P items (AList.update d e daily) = Some out"
      by (auto split: option.splits)
    from rec False have "aggregate P items (daily @ [(d, e)]) = Some out"
      by (simp add: update_absent)
    from Cons.IH [OF this] obtain dates new where
      ih: "map (sample_date P) items = map Some dates" "out = (daily @ [(d, e)]) @ new"
        "map fst new = filter (\<lambda>x. x \<notin> fst ` set (daily @ [(d, e)])) (first_seen dates)"
        "\<forall>(x, e) \<in> set new. \<exists>s. first_sample P items x = Some s \<and> daily_entry s = Some e"
      by blast
    have keys: "map fst ((d, e) # new) = filter (\<lambda>x. x \<notin> fst ` set daily) (first_seen (d # dates))"
      using False ih(3) by (auto simp: first_seen_Cons intro: filter_cong)
    have "\<exists>s. first_sample P (item # items) x = Some s \<and> daily_entry s = Some e'"
      if "(x, e') \<in> set ((d, e) # new)" for x e'
    proof (cases "(x, e') = (d, e)")
      case True
      with d e show ?thesis by (simp add: first_sample_Cons)
    next
      case ne: False
      with that have mem: "(x, e') \<in> set new" by auto
      then have "x \<in> set (map fst new)" by force
      with ih(3) have "x \<noteq> d" by auto
      with mem ih(4) d show ?thesis by (auto simp: first_sample_Cons)
    qed
    with d ih(1,2) keys show ?thesis
      by (intro exI [of _ "d # dates"] exI [of _ "(d, e) # new"]) auto
  qed
qed

lemma aggregate_succeeds:
  assumes "\<forall>s \<in> set items. sample_date P s \<noteq> None"
    and "\<forall>d s. d \<notin> fst ` set daily \<and> first_sample P items d = Some s \<longrightarrow> daily_entry s \<noteq> None"
  shows "aggregate P items daily \<noteq> None"
  using assms
proof (induction items arbitrary: daily)
  case Nil
  then show ?case by simp
next
  case (Cons item items)
  from Cons.prems(1) obtain d where d: "sample_date P item = Some d"
    by auto
  show ?case
  proof (cases "d \<in> fst ` set daily")
    case True
    then have some: "map_of daily d \<noteq> None"
      by (simp add: map_of_eq_None_iff)
    have "daily_entry s \<noteq> None" if "x \<notin> fst ` set daily" "first_sample P items x = Some s" for x s
    proof -
      from that(1) True have "x \<noteq> d" by auto
      with d that(2) have "first_sample P (item # items) x = Some s"
        by (simp add: first_sample_Cons)
      with Cons.prems(2) that(1) show ?thesis by blast
    qed
    with Cons.prems(1) have "aggregate P items daily \<noteq> None"
      by (intro Cons.IH) auto
    with d some show ?thesis by auto
  next
    case False
    then have none: "map_of daily d = None"
      by (simp add: map_of_eq_None_iff)
    from d have "first_sample P (item # items) d = Some item"
      by (simp add: first_sample_Cons)
    with Cons.prems(2) False obtain e where e: "daily_entry item = Some e"
      by blast
    have "daily_entry s \<noteq> None"
      if "x \<notin> fst ` set (AList.update d e daily)" "first_sample P items x = Some s" for x s
    proof -
      from that(1) False have "x \<noteq> d" "x \<notin> fst ` set daily"
        by (auto simp: update_absent)
      with d that(2) have "first_sample P (item # items) x = Some s"
        by (simp add: first_sample_Cons)
      with Cons.prems(2) \<open>x \<notin> fst ` set daily\<close> show ?thesis by blast
    qed
    with Cons.prems(1) have "aggregate P items (AList.update d e daily) \<noteq> None"
      by (intro Cons.IH) auto
    with d none e show ?thesis by simp
  qed
qed

lemma py_get_rain:
  assumes "py_getitem s ''dt'' = Some dt"
  shows "py_get s ''rain'' (JObj []) \<bind> (\<lambda>rain. py_get rain ''3h'' (JInt 0)) =
     (case py_getitem s ''rain'' of
        None \<Rightarrow> Some (JInt 0)
      | Some rain \<Rightarrow> (case rain of JObj kvs \<Rightarrow> Some (rain_volume s) | _ \<Rightarrow> None))"
proof -
  from assms obtain kvs where s: "s = JObj kvs"
    by (cases s) simp_all
  show ?thesis
  proof (cases "map_of kvs ''rain''")
    case None
    with s show ?thesis by simp
  next
    case (Some rain)
    with s show ?thesis
      by (cases rain) (simp_all add: rain_volume_def)
  qed
qed

lemma daily_entry_seeded:
  assumes "daily_entry s = Some e"
  shows "seeded_from s e"
proof -
  from assms obtain dt main temp temp_min temp_max humidity weather wind speed r where
    f: "py_getitem s ''dt'' = Some dt" "py_getitem s ''main'' = Some main"
      "py_getitem main ''temp'' = Some temp" "py_getitem main ''temp_min'' = Some temp_min"
      "py_getitem main ''temp_max'' = Some temp_max" "py_getitem main ''humidity'' = Some humidity"
      "py_getitem s ''weather'' = Some weather" "py_getitem s ''wind'' = Some wind"
      "py_getitem wind ''speed'' = Some speed"
    and r: "py_get s ''rain'' (JObj []) \<bind> (\<lambda>rain. py_get rain ''3h'' (JInt 0)) = Some r"
    and e: "e = JObj [(''dt'', dt),
                 (''temp'', JObj [(''day'', temp), (''min'', temp_min), (''max'', temp_max)]),
                 (''humidity'', humidity), (''weather'', weather), (''speed'', speed), (''rain'', r)]"
    unfolding daily_entry_def by (auto split: bind_splits)
  from r have "r = rain_volume s"
    unfolding py_get_rain [OF f(1)] by (auto simp: rain_volume_def split: option.splits json.splits)
  with f e show ?thesis
    by (simp add: seeded_from_def)
qed

lemma forecast_sample_iff:
  "forecast_sample P s \<longleftrightarrow> sample_date P s \<noteq> None \<and> daily_entry s \<noteq> None"
proof (cases "py_getitem s ''dt''")
  case None
  then show ?thesis by (simp add: forecast_sample_def sample_date_def)
next
  case (Some dt)
  have "daily_entry s \<noteq> None \<longleftrightarrow>
     (case py_getitem s ''main'' of
        None \<Rightarrow> False
      | Some main \<Rightarrow>
          py_getitem main ''temp'' \<noteq> None \<and> py_getitem main ''temp_min'' \<noteq> None \<and>
          py_getitem main ''temp_max'' \<noteq> None \<and> py_getitem main ''humidity'' \<noteq> None) \<and>
     py_getitem s ''weather'' \<noteq> None \<and>
     (case py_getitem s ''wind'' of None \<Rightarrow> False | Some wind \<Rightarrow> py_getitem wind ''speed'' \<noteq> None) \<and>
     (py_get s ''rain'' (JObj []) \<bind> (\<lambda>rain. py_get rain ''3h'' (JInt 0))) \<noteq> None"
    using Some unfolding daily_entry_def
    by (auto split: bind_splits option.splits)
  then show ?thesis
    using Some unfolding py_get_rain [OF Some]
    by (auto simp: forecast_sample_def sample_date_def split: option.splits json.splits)
qed

lemma aggregate_entries:
  assumes "aggregate P items [] = Some daily"
  shows "\<exists>dates. map (sample_date P) items = map Some dates
     \<and> map fst daily = first_seen dates
     \<and> length daily = card (set dates)
     \<and> list_all2 (\<lambda>date entry. \<exists>s. first_sample P items date = Some s \<and> daily_entry s = Some entry)
          (first_seen dates) (map snd daily)"
proof -
  from aggregate_Some [OF assms] obtain dates where
    d: "map (sample_date P) items = map Some dates"
    and k: "map fst daily = first_seen dates"
    and e: "\<forall>(d, e) \<in> set daily. \<exists>s. first_sample P items d = Some s \<and> daily_entry s = Some e"
    by auto
  from k have "length daily = card (set dates)"
    using length_first_seen [of dates] length_map [of fst daily] by simp
  moreover from e have "list_all2 (\<lambda>date entry. \<exists>s. first_sample P items date = Some s \<and> daily_entry s = Some entry)
          (map fst daily) (map snd daily)"
    by (auto simp: list_all2_map1 list_all2_map2 list_all2_same)
  ultimately show ?thesis using d k by auto
qed

lemma aggregate_None_iff:
  "aggregate P items [] = None \<longleftrightarrow> (\<exists>s \<in> set items. malformed_sample P items s)"
proof
  assume "aggregate P items [] = None"
  have "(\<exists>s \<in> set items. sample_date P s = None)
      \<or> (\<exists>d s. first_sample P items d = Some s \<and> daily_entry s = None)"
  proof (rule ccontr)
    assume "\<not> ?thesis"
    then have "\<forall>s \<in> set items. sample_date P s \<noteq> None"
      and "\<forall>d s. d \<notin> fst ` set [] \<and> first_sample P items d = Some s \<longrightarrow> daily_entry s \<noteq> None"
      by auto
    then have "aggregate P items [] \<noteq> None"
      by (rule aggregate_succeeds)
    with \<open>aggregate P items [] = None\<close> show False by simp
  qed
  then show "\<exists>s \<in> set items. malformed_sample P items s"
  proof
    assume "\<exists>s \<in> set items. sample_date P s = None"
    then obtain s where "s \<in> set items" "sample_date P s = None"
      by blast
    then have "s \<in> set items" "malformed_sample P items s"
      by (simp_all add: malformed_sample_def)
    then show ?thesis by blast
  next
    assume "\<exists>d s. first_sample P items d = Some s \<and> daily_entry s = None"
    then obtain d s where fs: "first_sample P items d = Some s" and "daily_entry s = None"
      by blast
    moreover from fs have "s \<in> set items" "sample_date P s = Some d"
      using first_sample_mem by blast+
    ultimately have "s \<in> set items" "malformed_sample P items s"
      by (simp_all add: malformed_sample_def forecast_sample_iff)
    then show ?thesis by blast
  qed
next
  assume "\<exists>s \<in> set items. malformed_sample P items s"
  then obtain s where s: "s \<in> set items" "malformed_sample P items s"
    by blast
  show "aggregate P items [] = None"
  proof (rule ccontr)
    assume "aggregate P items [] \<noteq> None"
    then obtain daily where "aggregate P items [] = Some daily"
      by auto
    from aggregate_Some [OF this] obtain dates where
      d: "map (sample_date P) items = map Some dates"
      and k: "map fst daily = first_seen dates"
      and e: "\<forall>(d, e) \<in> set daily. \<exists>s. first_sample P items d = Some s \<and> daily_entry s = Some e"
      by auto
    from d s(1) have "sample_date P s \<in> Some ` set dates"
      by (metis image_eqI list.set_map)
    then obtain date where date: "sample_date P s = Some date" "date \<in> set dates"
      by auto
    with s(2) have fs: "first_sample P items date = Some s" and "\<not> forecast_sample P s"
      by (simp_all add: malformed_sample_def)
    with date have none: "daily_entry s = None"
      by (simp add: forecast_sample_iff)
    from date(2) k have "date \<in> set (map fst daily)"
      by (simp add: set_first_seen)
    then obtain entry where "(date, entry) \<in> set daily"
      by auto
    with e fs have "daily_entry s = Some entry"
      by fastforce
    with none show False by simp
  qed
qed

lemma forecast_report_Some:
  assumes "forecast_report P data = Some report"
  shows "\<exists>samples items daily city cod.
     py_getitem data ''list'' = Some samples \<and> py_iter samples = Some items
     \<and> aggregate P items [] = Some daily
     \<and> py_getitem data ''city'' = Some city \<and> py_getitem data ''cod'' = Some cod
     \<and> report = JObj [(''city'', city), (''cod'', cod), (''message'', JInt 0),
                       (''cnt'', JInt (int (length daily))), (''list'', JArr (map snd daily))]"
  using assms unfolding forecast_report_def by (auto split: bind_splits)

lemma get_monthly_forecast_result:
  "fst (WeatherService_get_monthly_forecast P lat lon) =
     (case http_get P (forecast_request P lat lon) of
        Raises e \<Rightarrow> None
      | Returns data \<Rightarrow> forecast_report P data)"
  by (simp add: WeatherService_get_monthly_forecast_def Let_def)

lemma forecast_report_None_iff:
  "forecast_report P data = None \<longleftrightarrow> malformed_forecast P data"
proof (cases "py_getitem data ''list'' \<bind> py_iter")
  case None
  then have "forecast_report P data = None"
    by (auto simp: forecast_report_def split: bind_splits)
  with None show ?thesis by (simp add: malformed_forecast_def)
next
  case (Some items)
  then obtain samples where l: "py_getitem data ''list'' = Some samples" "py_iter samples = Some items"
    by (auto split: bind_splits)
  then have "forecast_report P data = None \<longleftrightarrow>
      aggregate P items [] = None \<or> py_getitem data ''city'' = None \<or> py_getitem data ''cod'' = None"
    by (auto simp: forecast_report_def split: bind_splits)
  with Some show ?thesis
    by (auto simp: malformed_forecast_def aggregate_None_iff)
qed

lemma example_dates:
  "sample_date (example_platform provider) (example_sample 0 t) = Some ''1970-01-01''"
  "sample_date (example_platform provider) (example_sample 10800 t) = Some ''1970-01-01''"
  "sample_date (example_platform provider) (example_sample 86400 t) = Some ''1970-01-02''"
  by (simp_all add: sample_date_def example_sample_def example_platform_def example_date_def)

lemma example_sample_ok: "forecast_sample (example_platform provider) (example_sample 0 t)"
  "forecast_sample (example_platform provider) (example_sample 10800 t)"
  "forecast_sample (example_platform provider) (example_sample 86400 t)"
  by (simp_all add: forecast_sample_def example_sample_def example_platform_def example_date_def)

lemma example_forecast_result:
  "fst (WeatherService_get_monthly_forecast (example_platform (\<lambda>r. Returns example_forecast)) lat lon) =
     Some (JObj [(''city'', JObj [(''name'', JStr ''London'')]), (''cod'', JStr ''200''),
                 (''message'', JInt 0), (''cnt'', JInt 2),
                 (''list'', JArr [the (daily_entry (example_sample 0 280)),
                                  the (daily_entry (example_sample 86400 290))])])"
proof -
  have e: "daily_entry (example_sample dt t) \<noteq> None" for dt t
    by (simp add: daily_entry_def example_sample_def)
  have "aggregate (example_platform (\<lambda>r. Returns example_forecast))
      [example_sample 0 280, example_sample 10800 285, example_sample 86400 290] [] =
      Some [(''1970-01-01'', the (daily_entry (example_sample 0 280))),
            (''1970-01-02'', the (daily_entry (example_sample 86400 290)))]"
    using e [of 0 280] e [of 86400 290] by (auto simp: example_dates)
  then show ?thesis
    by (simp add: get_monthly_forecast_result example_platform_def forecast_report_def
        example_forecast_def)
qed

lemma sample_dates_split:
  assumes "map (sample_date P) items = map Some dates"
  shows "\<exists>dts. map (\<lambda>s. py_getitem s ''dt'') items = map Some dts
           \<and> map (local_date P) dts = map Some dates"
  using assms
proof (induction items arbitrary: dates)
  case Nil
  then show ?case by simp
next
  case (Cons item items)
  from Cons.prems obtain date rest where dates: "dates = date # rest"
    and d: "sample_date P item = Some date" and r: "map (sample_date P) items = map Some rest"
    by (cases dates) auto
  from d obtain dt where dt: "py_getitem item ''dt'' = Some dt" "local_date P dt = Some date"
    by (auto simp: sample_date_def split: bind_splits)
  from Cons.IH [OF r] obtain dts where
    "map (\<lambda>s. py_getitem s ''dt'') items = map Some dts" "map (local_date P) dts = map Some rest"
    by blast
  with dt dates show ?case
    by (intro exI [of _ "dt # dts"]) simp
qed

lemma first_sample_index:
  assumes "map (sample_date P) items = map Some dates"
    and "first_sample P items date = Some s"
  shows "\<exists>i < length items. items ! i = s \<and> dates ! i = date \<and> (\<forall>j < i. dates ! j \<noteq> date)"
proof -
  have len: "length dates = length items"
    using assms(1) by (metis length_map)
  have nth: "sample_date P (items ! k) = Some (dates ! k)" if "k < length items" for k
  proof -
    from that have "map (sample_date P) items ! k = sample_date P (items ! k)"
      by simp
    moreover from that len have "map Some dates ! k = Some (dates ! k)"
      by simp
    ultimately show ?thesis using assms(1) by simp
  qed
  from assms(2) obtain i where i: "i < length items" "sample_date P (items ! i) = Some date"
    "s = items ! i" "\<forall>j < i. sample_date P (items ! j) \<noteq> Some date"
    unfolding first_sample_def find_Some_iff by blast
  from i(1,2) nth have "dates ! i = date"
    by simp
  moreover have "dates ! j \<noteq> date" if "j < i" for j
  proof -
    from that i(1) have "j < length items" by simp
    with nth have "sample_date P (items ! j) = Some (dates ! j)" by simp
    with i(4) that show ?thesis by auto
  qed
  ultimately show ?thesis using i(1,3) by blast
qed

lemma map_Some_inj: "map Some xs = map Some ys \<Longrightarrow> xs = ys"
  by (simp add: inj_map_eq_map)

lemma example_daily_entry: "daily_entry (example_sample dt temp) = Some (example_entry dt temp)"
  by (simp add: daily_entry_def example_sample_def example_entry_def)

lemma example_forecast_entries:
  "fst (WeatherService_get_monthly_forecast (example_platform (\<lambda>r. Returns example_forecast)) lat lon) =
     Some (JObj [(''city'', JObj [(''name'', JStr ''London'')]), (''cod'', JStr ''200''),
                 (''message'', JInt 0), (''cnt'', JInt 2),
                 (''list'', JArr [example_entry 0 280, example_entry 86400 290])])"
  using example_forecast_result [of lat lon] by (simp add: example_daily_entry)

subsection \<open>Reports\<close>

text \<open>
  C1.  For a payload with \<^verbatim>\<open>city\<close>, \<^verbatim>\<open>cod\<close> and a \<^verbatim>\<open>list\<close> of forecast samples, let the
  date of a sample be the host's local calendar date of its \<^verbatim>\<open>dt\<close>.
  \<^verbatim>\<open>get_monthly_forecast\<close> returns a report whose \<^verbatim>\<open>list\<close> has as many entries as there are
  distinct dates, one for each date in the order in which the dates first appear; the entry
  of a date takes its timestamp, temperatures, humidity, weather, wind speed and rain volume
  (0 when absent) from the earliest sample of that date, so the later samples of a date leave
  no trace.
\<close>

theorem forecast_one_entry_per_date:
  assumes reply: "http_get P (forecast_request P lat lon) = Returns data"
    and samples: "py_getitem data ''list'' = Some (JArr items)"
    and city: "py_getitem data ''city'' = Some city"
    and cod: "py_getitem data ''cod'' = Some cod"
    and contract: "\<forall>s \<in> set items. forecast_sample P s"
  shows "\<exists>dts dates entries.
     map (\<lambda>s. py_getitem s ''dt'') items = map Some dts
     \<and> map (local_date P) dts = map Some dates
     \<and> fst (WeatherService_get_monthly_forecast P lat lon) =
         Some (JObj [(''city'', city), (''cod'', cod), (''message'', JInt 0),
                     (''cnt'', JInt (int (length entries))), (''list'', JArr entries)])
     \<and> length entries = card (set dates)
     \<and> list_all2 (\<lambda>date entry. \<exists>i < length items. dates ! i = date
              \<and> (\<forall>j < i. dates ! j \<noteq> date) \<and> seeded_from (items ! i) entry)
          (first_seen dates) entries"
proof -
  have "aggregate P items [] \<noteq> None"
  proof (rule aggregate_succeeds)
    show "\<forall>s \<in> set items. sample_date P s \<noteq> None"
      using contract by (simp add: forecast_sample_iff)
    show "\<forall>d s. d \<notin> fst ` set [] \<and> first_sample P items d = Some s \<longrightarrow> daily_entry s \<noteq> None"
      using contract first_sample_mem by (fastforce simp: forecast_sample_iff)
  qed
  then obtain daily where daily: "aggregate P items [] = Some daily"
    by auto
  from aggregate_entries [OF this] obtain dates where
    d: "map (sample_date P) items = map Some dates"
    and n: "length daily = card (set dates)"
    and e: "list_all2 (\<lambda>date entry. \<exists>s. first_sample P items date = Some s \<and> daily_entry s = Some entry)
          (first_seen dates) (map snd daily)"
    by blast
  from sample_dates_split [OF d] obtain dts where
    dts: "map (\<lambda>s. py_getitem s ''dt'') items = map Some dts" "map (local_date P) dts = map Some dates"
    by blast
  have "\<exists>i < length items. dates ! i = date \<and> (\<forall>j < i. dates ! j \<noteq> date) \<and> seeded_from (items ! i) entry"
    if "\<exists>s. first_sample P items date = Some s \<and> daily_entry s = Some entry" for date entry
  proof -
    from that obtain s where s: "first_sample P items date = Some s" "daily_entry s = Some entry"
      by blast
    from first_sample_index [OF d s(1)] obtain i where
      "i < length items" "items ! i = s" "dates ! i = date" "\<forall>j < i. dates ! j \<noteq> date"
      by blast
    with daily_entry_seeded [OF s(2)] show ?thesis by blast
  qed
  with e have "list_all2 (\<lambda>date entry. \<exists>i < length items. dates ! i = date
              \<and> (\<forall>j < i. dates ! j \<noteq> date) \<and> seeded_from (items ! i) entry)
          (first_seen dates) (map snd daily)"
    by (rule list_all2_mono)
  moreover have "fst (WeatherService_get_monthly_forecast P lat lon) =
         Some (JObj [(''city'', city), (''cod'', cod), (''message'', JInt 0),
                     (''cnt'', JInt (int (length (map snd daily)))), (''list'', JArr (map snd daily))])"
    using reply samples city cod daily
    by (simp add: get_monthly_forecast_result forecast_report_def)
  ultimately show ?thesis
    using dts n by (intro exI [of _ dts] exI [of _ dates] exI [of _ "map snd daily"]) simp
qed

theorem forecast_one_entry_per_date_witness:
  "fst (WeatherService_get_monthly_forecast (example_platform (\<lambda>r. Returns example_forecast))
          (JFloat (103 / 2)) (JFloat (1 / 8))) =
     Some (JObj [(''city'', JObj [(''name'', JStr ''London'')]), (''cod'', JStr ''200''),
                 (''message'', JInt 0), (''cnt'', JInt 2),
                 (''list'', JArr [example_entry 0 280, example_entry 86400 290])])
   \<and> map (local_date (example_platform (\<lambda>r. Returns example_forecast))) [JInt 0, JInt 10800, JInt 86400] =
       map Some [''1970-01-01'', ''1970-01-01'', ''1970-01-02'']
   \<and> list_all2 (\<lambda>date entry. \<exists>i < 3. [''1970-01-01'', ''1970-01-01'', ''1970-01-02''] ! i = date
          \<and> (\<forall>j < i. [''1970-01-01'', ''1970-01-01'', ''1970-01-02''] ! j \<noteq> date)
          \<and> seeded_from ([example_sample 0 280, example_sample 10800 285, example_sample 86400 290] ! i) entry)
        [''1970-01-01'', ''1970-01-02''] [example_entry 0 280, example_entry 86400 290]"
proof -
  let ?P = "example_platform (\<lambda>r. Returns example_forecast)"
  let ?items = "[example_sample 0 280, example_sample 10800 285, example_sample 86400 290]"
  let ?dates = "[''1970-01-01'', ''1970-01-01'', ''1970-01-02'']"
  have reply: "http_get ?P (forecast_request ?P (JFloat (103 / 2)) (JFloat (1 / 8))) = Returns example_forecast"
    by (simp add: example_platform_def)
  have samples: "py_getitem example_forecast ''list'' = Some (JArr ?items)"
    by (simp add: example_forecast_def)
  have city: "py_getitem example_forecast ''city'' = Some (JObj [(''name'', JStr ''London'')])"
    by (simp add: example_forecast_def)
  have cod: "py_getitem example_forecast ''cod'' = Some (JStr ''200'')"
    by (simp add: example_forecast_def)
  have contract: "\<forall>s \<in> set ?items. forecast_sample ?P s"
    by (simp add: example_sample_ok)
  from forecast_one_entry_per_date [OF reply samples city cod contract]
  obtain dts dates entries where
    dts: "map (\<lambda>s. py_getitem s ''dt'') ?items = map Some dts"
    and dates: "map (local_date ?P) dts = map Some dates"
    and result: "fst (WeatherService_get_monthly_forecast ?P (JFloat (103 / 2)) (JFloat (1 / 8))) =
         Some (JObj [(''city'', JObj [(''name'', JStr ''London'')]), (''cod'', JStr ''200''),
                     (''message'', JInt 0),
                     (''cnt'', JInt (int (length entries))), (''list'', JArr entries)])"
    and firsts: "list_all2 (\<lambda>date entry. \<exists>i < length ?items. dates ! i = date
              \<and> (\<forall>j < i. dates ! j \<noteq> date) \<and> seeded_from (?items ! i) entry)
          (first_seen dates) entries"
    by blast
  have "map Some [JInt 0, JInt 10800, JInt 86400] = map Some dts"
    using dts by (simp add: example_sample_def)
  then have "[JInt 0, JInt 10800, JInt 86400] = dts"
    by (rule map_Some_inj)
  then have dts_eq: "dts = [JInt 0, JInt 10800, JInt 86400]"
    by simp
  have local: "map (local_date ?P) [JInt 0, JInt 10800, JInt 86400] = map Some ?dates"
    by (simp add: example_platform_def example_date_def)
  with dates dts_eq have "map Some ?dates = map Some dates"
    by simp
  then have "?dates = dates"
    by (rule map_Some_inj)
  then have dates_eq: "dates = ?dates"
    by simp
  have seen: "first_seen ?dates = [''1970-01-01'', ''1970-01-02'']"
    by (simp add: first_seen_def)
  from result example_forecast_entries [of "JFloat (103 / 2)" "JFloat (1 / 8)"]
  have entries_eq: "entries = [example_entry 0 280, example_entry 86400 290]"
    by simp
  from firsts show ?thesis
    unfolding dates_eq seen entries_eq
    using example_forecast_entries [of "JFloat (103 / 2)" "JFloat (1 / 8)"] local
    by (simp add: numeral_3_eq_3)
qed



text \<open>
  C7.  \<^verbatim>\<open>get_monthly_forecast\<close> returns \<^verbatim>\<open>None\<close> exactly when the forecast call raises
  (timeout, transport failure, non-success status, a body that is not JSON) or the payload
  is malformed; in particular every such failure gives \<^verbatim>\<open>None\<close> and no report.
\<close>

theorem forecast_failure_is_None:
  "fst (WeatherService_get_monthly_forecast P lat lon) = None \<longleftrightarrow>
     (\<exists>e. http_get P (forecast_request P lat lon) = Raises e)
     \<or> (\<exists>data. http_get P (forecast_request P lat lon) = Returns data \<and> malformed_forecast P data)"
  by (cases "http_get P (forecast_request P lat lon)")
     (simp_all add: get_monthly_forecast_result forecast_report_None_iff)

theorem forecast_failure_is_None_witness:
  "fst (WeatherService_get_monthly_forecast (example_platform (\<lambda>r. Raises TimeoutException)) (JFloat (103 / 2)) (JFloat (1 / 8))) = None
   \<and> fst (WeatherService_get_monthly_forecast (example_platform (\<lambda>r. Raises (HTTPStatusError 401))) (JFloat (103 / 2)) (JFloat (1 / 8))) = None
   \<and> fst (WeatherService_get_monthly_forecast
        (example_platform (\<lambda>r. Returns (JObj [(''list'', JArr [example_sample 0 280, JObj [(''dt'', JInt 86400)]]),
                                               (''city'', JNull), (''cod'', JStr ''200'')]))) (JFloat (103 / 2)) (JFloat (1 / 8))) = None"
proof -
  let ?data = "JObj [(''list'', JArr [example_sample 0 280, JObj [(''dt'', JInt 86400)]]),
                     (''city'', JNull), (''cod'', JStr ''200'')]"
  let ?P = "example_platform (\<lambda>r. Returns ?data)"
  have "malformed_sample ?P [example_sample 0 280, JObj [(''dt'', JInt 86400)]] (JObj [(''dt'', JInt 86400)])"
    by (simp add: malformed_sample_def sample_date_def example_platform_def example_date_def
        first_sample_def example_sample_def forecast_sample_def)
  then have "malformed_forecast ?P ?data"
    by (simp add: malformed_forecast_def)
  then show ?thesis
    using forecast_failure_is_None [of "example_platform (\<lambda>r. Raises TimeoutException)" "JFloat (103 / 2)" "JFloat (1 / 8)"]
      forecast_failure_is_None [of "example_platform (\<lambda>r. Raises (HTTPStatusError 401))" "JFloat (103 / 2)" "JFloat (1 / 8)"]
      forecast_failure_is_None [of ?P "JFloat (103 / 2)" "JFloat (1 / 8)"]
    by (simp add: example_platform_def)
qed

section \<open>The forecast endpoint\<close>

text \<open>The three outcomes of \<^verbatim>\<open>get_monthly_weather\<close> for a non-empty city: no location,
  no forecast, and both; in the last the report is the answer, with status 200, when it
  can be rendered.\<close>

lemma get_monthly_weather_unresolved:
  assumes "city \<noteq> []" and "http_get P (get_location_request P city) = Returns (JArr [])"
  shows "fst (get_monthly_weather P city) = Inl (HTTPException 500 ''Internal server error'')"
proof -
  have "WeatherService_get_location P city = (None, [get_location_request P city])"
    using assms(2) by (simp add: WeatherService_get_location_def)
  then show ?thesis
    using assms(1) by (simp add: get_monthly_weather_def get_monthly_weather_try_def)
qed

lemma get_monthly_weather_fetch_failed:
  assumes "city \<noteq> []" and "fst (WeatherService_get_location P city) = Some location"
    and "py_getitem location ''lat'' = Some lat" and "py_getitem location ''lon'' = Some lon"
    and "fst (WeatherService_get_monthly_forecast P lat lon) = None"
  shows "fst (get_monthly_weather P city) = Inl (HTTPException 500 ''Internal server error'')"
proof -
  obtain c where "WeatherService_get_location P city = (Some location, c)"
    using assms(2) by (cases "WeatherService_get_location P city") simp
  moreover obtain c' where "WeatherService_get_monthly_forecast P lat lon = (None, c')"
    using assms(5) by (cases "WeatherService_get_monthly_forecast P lat lon") simp
  ultimately show ?thesis
    using assms(1,3,4) by (simp add: get_monthly_weather_def get_monthly_weather_try_def)
qed

lemma get_monthly_weather_ok:
  assumes "city \<noteq> []" and "fst (WeatherService_get_location P city) = Some location"
    and "py_getitem location ''lat'' = Some lat" and "py_getitem location ''lon'' = Some lon"
    and "fst (WeatherService_get_monthly_forecast P lat lon) = Some forecast"
  shows "fst (get_monthly_weather P city) = Inr forecast
       \<and> respond (fst (get_monthly_weather P city)) =
           (if allow_nan_free forecast then JSONResponse 200 forecast else ServerErrorResponse)"
proof -
  obtain c where "WeatherService_get_location P city = (Some location, c)"
    using assms(2) by (cases "WeatherService_get_location P city") simp
  moreover obtain c' where "WeatherService_get_monthly_forecast P lat lon = (Some forecast, c')"
    using assms(5) by (cases "WeatherService_get_monthly_forecast P lat lon") simp
  moreover from assms(3) have "py_truthy location"
    by (cases location) auto
  moreover from assms(5) have "py_truthy forecast"
    by (auto simp: get_monthly_forecast_result dest!: forecast_report_Some split: reply.splits)
  ultimately show ?thesis
    using assms(1,3,4) by (simp add: get_monthly_weather_def get_monthly_weather_try_def)
qed

text \<open>
  C2.  The claim asks for 404 when the city of \<^verbatim>\<open>GET /api/weather/monthly/{city}\<close> is not
  resolved.  The handler raises that 404 inside its \<^verbatim>\<open>try\<close>, where \<^verbatim>\<open>except Exception\<close>
  catches it: the answer is 500 with the detail \<^verbatim>\<open>Internal server error\<close>.
\<close>

theorem monthly_unresolved_city_is_500:
  "fst (handle_get (example_platform (\<lambda>r. Returns (JArr []))) ''/api/weather/monthly/Atlantis'') =
           JSONResponse 500 (JObj [(''detail'', JStr ''Internal server error'')])"
proof -
  let ?P = "example_platform (\<lambda>r. Returns (JArr []))"
  have "WeatherService_get_location ?P ''Atlantis'' = (None, [get_location_request ?P ''Atlantis''])"
    by (simp add: WeatherService_get_location_def example_platform_def)
  then have "get_monthly_weather ?P ''Atlantis'' =
      (Inl (HTTPException 500 ''Internal server error''), [get_location_request ?P ''Atlantis''])"
    by (simp add: get_monthly_weather_def get_monthly_weather_try_def)
  moreover have "route_for routes (''/api/weather/monthly/'' @ ''Atlantis'') = Some (router_monthly_weather, [''Atlantis''])"
    by (rule route_monthly_weather) simp_all
  ultimately show ?thesis by (simp add: handle_get_def)
qed

end
